theory Spec2Isabelle
  imports Complex_Main
begin

section \<open>Zone classifier (src/src/utils/zone_detector.py)\<close>

text \<open>
  \<^verbatim>\<open>ZoneDetector\<close> keeps the frame width, the number of divisions and the two
  boundaries. Python integers are unbounded, so every field is an \<^typ>\<open>int\<close>; Python's
  \<^verbatim>\<open>//\<close> is floor division, which is \<open>div\<close> on \<^typ>\<open>int\<close> for the positive
  divisors used here.
\<close>

record zone_detector =
  frame_width :: int
  divisions :: int
  left_boundary :: int
  right_boundary :: int

text \<open>\<^verbatim>\<open>update_boundaries\<close>: \<^verbatim>\<open>2 * frame_width // 3\<close> parses as \<^verbatim>\<open>(2 * frame_width) // 3\<close>.\<close>

definition update_boundaries :: "int \<Rightarrow> zone_detector \<Rightarrow> zone_detector" where
  "update_boundaries w zd =
     zd\<lparr>frame_width := w, left_boundary := w div 3, right_boundary := (2 * w) div 3\<rparr>"

text \<open>\<^verbatim>\<open>__init__(frame_width, divisions=3)\<close> stores both and calls \<^verbatim>\<open>update_boundaries\<close>.\<close>

definition ZoneDetector :: "int \<Rightarrow> int \<Rightarrow> zone_detector" where
  "ZoneDetector w d =
     update_boundaries w
       \<lparr>frame_width = w, divisions = d, left_boundary = 0, right_boundary = 0\<rparr>"

type_synonym bbox = "int \<times> int \<times> int \<times> int"

text \<open>
  \<^verbatim>\<open>get_zone(bbox=None, center_x=None)\<close>: both arguments are optional; an explicit
  \<^verbatim>\<open>center_x\<close> wins over the box, and with neither the answer is \<^verbatim>\<open>"milieu"\<close>.
\<close>

definition get_zone :: "zone_detector \<Rightarrow> bbox option \<Rightarrow> int option \<Rightarrow> string" where
  "get_zone zd bbox center_x =
     (let cx = (case center_x of
                  Some c \<Rightarrow> Some c
                | None \<Rightarrow> (case bbox of
                             Some (x1, y1, x2, y2) \<Rightarrow> Some ((x1 + x2) div 2)
                           | None \<Rightarrow> None))
      in case cx of
           None \<Rightarrow> ''milieu''
         | Some c \<Rightarrow>
             if c < left_boundary zd then ''gauche''
             else if c > right_boundary zd then ''droite''
             else ''milieu'')"

section \<open>Speech queue and voice notifications (src/src/audio/tts_engine.py)\<close>

text \<open>
  Python strings are sequences of code points; here a string is the list of the bytes
  of its UTF-8 encoding, so the two accented letters of the French messages are two
  bytes each. No property below depends on the length of a message.
\<close>

definition a_grave :: string where
  "a_grave = [CHR 0xC3, CHR 0xA0]"

definition e_acute :: string where
  "e_acute = [CHR 0xC3, CHR 0xA9]"

text \<open>\<^verbatim>\<open>str(n)\<close> for a Python integer, as used by the f-string \<^verbatim>\<open>f"{count} {class_name}"\<close>.\<close>

function str_nat :: "nat \<Rightarrow> string" where
  "str_nat n =
     (if n < 10 then [char_of (48 + n)]
      else str_nat (n div 10) @ [char_of (48 + n mod 10)])"
  by pat_completeness auto
termination
  by (relation "measure id") auto

declare str_nat.simps [simp del]

definition str_int :: "int \<Rightarrow> string" where
  "str_int i = (if i < 0 then CHR ''-'' # str_nat (nat (- i)) else str_nat (nat i))"

text \<open>
  Of \<^verbatim>\<open>TTSEngine\<close> only the message queue matters to the notification manager. The
  worker thread that pops and speaks messages is not modelled, so the queue is the
  ordered record of every speech request made. \<^verbatim>\<open>speak(message, immediate=False)\<close>
  appends, after clearing the queue when \<^verbatim>\<open>immediate\<close> is set.
\<close>

record TTSEngine =
  message_queue :: "string list"

definition speak :: "string \<Rightarrow> bool \<Rightarrow> TTSEngine \<Rightarrow> TTSEngine" where
  "speak message immediate e =
     e\<lparr>message_queue := (if immediate then [] else message_queue e) @ [message]\<rparr>"

text \<open>
  \<^verbatim>\<open>VoiceNotificationManager\<close>: the dictionary \<^verbatim>\<open>last_spoken_time\<close> maps an
  identifier string to a timestamp, \<^verbatim>\<open>spoken_objects\<close> is a set of identifiers.
  Timestamps and the cooldown are Python floats read from \<^verbatim>\<open>time.time()\<close>; they are
  modelled as real numbers, and every call that reads the clock takes the reading as
  its \<open>current_time\<close> argument.
\<close>

record VoiceNotificationManager =
  tts_engine :: TTSEngine
  cooldown :: real
  last_spoken_time :: "string \<rightharpoonup> real"
  spoken_objects :: "string set"

text \<open>\<^verbatim>\<open>__init__(tts_engine, cooldown=5.0)\<close>.\<close>

definition VoiceNotificationManager_init :: "TTSEngine \<Rightarrow> real \<Rightarrow> VoiceNotificationManager" where
  "VoiceNotificationManager_init e c =
     \<lparr>tts_engine = e, cooldown = c, last_spoken_time = Map.empty, spoken_objects = {}\<rparr>"

text \<open>\<^verbatim>\<open>object_zone_id = f"{class_name}_{zone}"\<close>.\<close>

definition object_zone_id :: "string \<Rightarrow> string \<Rightarrow> string" where
  "object_zone_id class_name zone = class_name @ ''_'' @ zone"

definition no_detection_id :: string where
  "no_detection_id = ''no_detection''"

text \<open>The message built by \<^verbatim>\<open>announce_detection\<close>.\<close>

definition detection_message :: "string \<Rightarrow> string \<Rightarrow> bool \<Rightarrow> int \<Rightarrow> string" where
  "detection_message class_name zone include_zone count =
     (let message = (if count > 1 then str_int count @ '' '' @ class_name else class_name)
      in if include_zone then message @ '' '' @ a_grave @ '' '' @ zone else message)"

text \<open>
  \<^verbatim>\<open>announce_detection(class_name, zone, include_zone=True, count=1)\<close>. The cooldown
  test \<^verbatim>\<open>id in last_spoken_time and current_time - last_spoken_time[id] < cooldown\<close>
  returns early; otherwise the message is queued, the timestamp stored and the
  identifier added to \<^verbatim>\<open>spoken_objects\<close>.
\<close>

definition in_cooldown :: "VoiceNotificationManager \<Rightarrow> string \<Rightarrow> real \<Rightarrow> bool" where
  "in_cooldown m oid current_time =
     (case last_spoken_time m oid of
        None \<Rightarrow> False
      | Some t \<Rightarrow> current_time - t < cooldown m)"

definition announce_detection ::
  "string \<Rightarrow> string \<Rightarrow> bool \<Rightarrow> int \<Rightarrow> real \<Rightarrow> VoiceNotificationManager \<Rightarrow> VoiceNotificationManager" where
  "announce_detection class_name zone include_zone count current_time m =
     (let oid = object_zone_id class_name zone
      in if in_cooldown m oid current_time then m
         else m\<lparr>tts_engine :=
                   speak (detection_message class_name zone include_zone count) False (tts_engine m),
                 last_spoken_time := (last_spoken_time m)(oid \<mapsto> current_time),
                 spoken_objects := insert oid (spoken_objects m)\<rparr>)"

text \<open>
  \<^verbatim>\<open>announce_no_detection()\<close>. The test is
  \<^verbatim>\<open>id not in last_spoken_time or current_time - last_spoken_time[id] > cooldown\<close>;
  the body queues the message, stores the timestamp under \<^verbatim>\<open>"no_detection"\<close> and
  clears \<^verbatim>\<open>spoken_objects\<close> (and nothing else).
\<close>

definition no_detection_message :: string where
  "no_detection_message = ''Aucun objet d'' @ e_acute @ ''tect'' @ e_acute"

definition no_detection_due :: "VoiceNotificationManager \<Rightarrow> real \<Rightarrow> bool" where
  "no_detection_due m current_time =
     (case last_spoken_time m no_detection_id of
        None \<Rightarrow> True
      | Some t \<Rightarrow> current_time - t > cooldown m)"

definition announce_no_detection ::
  "real \<Rightarrow> VoiceNotificationManager \<Rightarrow> VoiceNotificationManager" where
  "announce_no_detection current_time m =
     (if no_detection_due m current_time
      then m\<lparr>tts_engine := speak no_detection_message False (tts_engine m),
              last_spoken_time := (last_spoken_time m)(no_detection_id \<mapsto> current_time),
              spoken_objects := {}\<rparr>
      else m)"

text \<open>
  \<^verbatim>\<open>cleanup_old_objects(current_objects)\<close> deletes every key other than
  \<^verbatim>\<open>"no_detection"\<close> that is not in \<^verbatim>\<open>current_objects\<close>.
\<close>

definition cleanup_old_objects ::
  "string set \<Rightarrow> VoiceNotificationManager \<Rightarrow> VoiceNotificationManager" where
  "cleanup_old_objects current_objects m =
     m\<lparr>last_spoken_time :=
         (\<lambda>key. if key \<noteq> ''no_detection'' \<and> key \<notin> current_objects then None
                else last_spoken_time m key)\<rparr>"

text \<open>\<^verbatim>\<open>reset()\<close> clears both containers.\<close>

definition reset :: "VoiceNotificationManager \<Rightarrow> VoiceNotificationManager" where
  "reset m = m\<lparr>last_spoken_time := Map.empty, spoken_objects := {}\<rparr>"

section \<open>Per-frame voice handling (src/src/gui/main_window.py)\<close>

text \<open>
  \<^verbatim>\<open>handle_voice_notifications(detections)\<close> reads two entries of each detection
  dictionary, \<^verbatim>\<open>"class"\<close> and \<^verbatim>\<open>"zone"\<close>.
\<close>

record detection =
  det_class :: string
  det_zone :: string

record obj_info =
  info_class :: string
  info_zone :: string
  info_count :: int

definition det_key :: "detection \<Rightarrow> string" where
  "det_key det = det_class det @ ''_'' @ det_zone det"

text \<open>
  \<^verbatim>\<open>zone_objects\<close> is a dictionary, which keeps its keys in insertion order; it is an
  association list here. A first occurrence appends an entry with count 0, and every
  occurrence increments the count of its entry.
\<close>

fun bump_count :: "string \<Rightarrow> (string \<times> obj_info) list \<Rightarrow> (string \<times> obj_info) list" where
  "bump_count key [] = []"
| "bump_count key ((k, v) # rest) =
     (if k = key then (k, v\<lparr>info_count := info_count v + 1\<rparr>) # rest
      else (k, v) # bump_count key rest)"

definition add_detection :: "(string \<times> obj_info) list \<Rightarrow> detection \<Rightarrow> (string \<times> obj_info) list" where
  "add_detection zone_objects det =
     (let key = det_key det;
          zo = (if key \<in> set (map fst zone_objects) then zone_objects
                else zone_objects @
                       [(key, \<lparr>info_class = det_class det, info_zone = det_zone det,
                               info_count = 0\<rparr>)])
      in bump_count key zo)"

definition group_detections :: "detection list \<Rightarrow> (string \<times> obj_info) list" where
  "group_detections detections = foldl add_detection [] detections"

text \<open>
  Every \<^verbatim>\<open>announce_detection\<close> call reads the clock anew: \<open>clock i\<close> is the reading of
  the \<open>i\<close>-th call made while handling one frame.
\<close>

fun announce_each ::
  "bool \<Rightarrow> (nat \<Rightarrow> real) \<Rightarrow> nat \<Rightarrow> obj_info list \<Rightarrow> VoiceNotificationManager
     \<Rightarrow> VoiceNotificationManager" where
  "announce_each include_zone clock i [] m = m"
| "announce_each include_zone clock i (obj # rest) m =
     announce_each include_zone clock (Suc i) rest
       (announce_detection (info_class obj) (info_zone obj) include_zone (info_count obj)
          (clock i) m)"

text \<open>
  The two check boxes are inputs: \<open>voice_checked\<close> and \<open>zone_checked\<close>. An empty
  detection list announces "no detection" and returns before the cleanup.
\<close>

definition handle_voice_notifications ::
  "bool \<Rightarrow> bool \<Rightarrow> (nat \<Rightarrow> real) \<Rightarrow> detection list \<Rightarrow> VoiceNotificationManager
     \<Rightarrow> VoiceNotificationManager" where
  "handle_voice_notifications voice_checked zone_checked clock detections m =
     (if \<not> voice_checked then m
      else if detections = [] then announce_no_detection (clock 0) m
      else cleanup_old_objects (set (map det_key detections))
             (announce_each zone_checked clock 0 (map snd (group_detections detections)) m))"

text \<open>A frame handled at one instant: every clock reading of the frame is \<open>t\<close>.\<close>

definition clock_at :: "real \<Rightarrow> nat \<Rightarrow> real" where
  "clock_at t i = t"

section \<open>Exceptions\<close>

text \<open>
  The exceptions the modelled code raises or catches. All of them are subclasses of
  Python's \<^verbatim>\<open>Exception\<close>, which is what the \<^verbatim>\<open>except Exception\<close> clauses catch;
  \<open>Exception msg\<close> stands for any other such exception raised by a library call.
\<close>

datatype py_exception = RuntimeError string | ZeroDivisionError | Exception string

section \<open>Video recorder (src/src/utils/video_recorder.py)\<close>

text \<open>
  The \<^verbatim>\<open>cv2.VideoWriter\<close> held by the recorder: the path it was created for, whether
  it opened, and the frames written to it so far. The type of frames is a parameter.
\<close>

record 'f VideoWriter =
  vw_path :: string
  vw_is_opened :: bool
  vw_frames :: "'f list"

text \<open>
  The fields of \<^verbatim>\<open>VideoRecorder\<close>. The last two fields are not attributes of the
  class: they count the \<^verbatim>\<open>cv2.VideoWriter\<close> objects constructed and released, which
  in the source are effects on the outside world.
\<close>

record 'f VideoRecorder =
  output_dir :: string
  writer :: "'f VideoWriter option"
  output_path :: "string option"
  is_recording_flag :: bool
  frame_count :: int
  start_time :: "real option"
  writers_created :: nat
  writers_released :: nat

text \<open>
  \<^verbatim>\<open>start_recording(frame_width, frame_height, fps=20.0, codec='mp4v')\<close>. The
  formatted local time \<open>timestamp\<close>, the clock reading \<open>now\<close> and whether the new
  writer opens (\<open>opens\<close>) are inputs. The path and the writer are stored before the
  \<^verbatim>\<open>isOpened\<close> test, so they stay stored when \<^verbatim>\<open>RuntimeError\<close> is raised. The result
  is the returned path (an \<^verbatim>\<open>Optional[str]\<close> attribute) or the exception, with the
  recorder after the call.
\<close>

definition start_recording ::
  "int \<Rightarrow> int \<Rightarrow> real \<Rightarrow> string \<Rightarrow> string \<Rightarrow> real \<Rightarrow> bool \<Rightarrow> 'f VideoRecorder
     \<Rightarrow> (py_exception + string option) \<times> 'f VideoRecorder" where
  "start_recording width height fps codec timestamp now opens r =
     (if is_recording_flag r then (Inr (output_path r), r)
      else
        let filename = ''recording_'' @ timestamp @ ''.mp4'';
            path = output_dir r @ ''/'' @ filename;
            w = \<lparr>vw_path = path, vw_is_opened = opens, vw_frames = []\<rparr>;
            r1 = r\<lparr>output_path := Some path, writer := Some w,
                   writers_created := Suc (writers_created r)\<rparr>
        in if \<not> opens
           then (Inl (RuntimeError (''Failed to open video writer for '' @ path)), r1)
           else (Inr (Some path),
                 r1\<lparr>is_recording_flag := True, frame_count := 0, start_time := Some now\<rparr>))"

text \<open>
  \<^verbatim>\<open>writer.write(frame)\<close> is a library call; whether it raises is an input of the
  model.
\<close>

datatype write_outcome = Write_ok | Write_raises string

definition writer_write ::
  "'f \<Rightarrow> write_outcome \<Rightarrow> 'f VideoWriter \<Rightarrow> py_exception + 'f VideoWriter" where
  "writer_write frame outcome w =
     (case outcome of
        Write_ok \<Rightarrow> Inr (w\<lparr>vw_frames := vw_frames w @ [frame]\<rparr>)
      | Write_raises msg \<Rightarrow> Inl (Exception msg))"

text \<open>
  \<^verbatim>\<open>write_frame(frame)\<close>: the guard \<^verbatim>\<open>not is_recording_flag or writer is None\<close>
  returns \<^verbatim>\<open>False\<close>; the \<^verbatim>\<open>try\<close> block writes and increments, and
  \<^verbatim>\<open>except Exception\<close> returns \<^verbatim>\<open>False\<close>. The result type has room for an exception
  that escapes the call.
\<close>

definition write_frame ::
  "'f \<Rightarrow> write_outcome \<Rightarrow> 'f VideoRecorder \<Rightarrow> (py_exception + bool) \<times> 'f VideoRecorder" where
  "write_frame frame outcome r =
     (if \<not> is_recording_flag r then (Inr False, r)
      else case writer r of
             None \<Rightarrow> (Inr False, r)
           | Some w \<Rightarrow>
               (case writer_write frame outcome w of
                  Inr w' \<Rightarrow> (Inr True, r\<lparr>writer := Some w', frame_count := frame_count r + 1\<rparr>)
                | Inl e \<Rightarrow> (Inr False, r)))"

text \<open>
  \<^verbatim>\<open>stop_recording()\<close> returns \<^verbatim>\<open>(None, 0, 0.0)\<close> when nothing is being recorded.
  Otherwise the duration is \<^verbatim>\<open>time.time() - start_time if start_time else 0.0\<close> (a
  start time of \<^verbatim>\<open>None\<close> or \<^verbatim>\<open>0.0\<close> is falsy), the writer is released and dropped,
  and the session fields are reset.
\<close>

definition stop_recording ::
  "real \<Rightarrow> 'f VideoRecorder
     \<Rightarrow> (py_exception + string option \<times> int \<times> real) \<times> 'f VideoRecorder" where
  "stop_recording now r =
     (if \<not> is_recording_flag r then (Inr (None, 0, 0), r)
      else
        let duration = (case start_time r of
                          None \<Rightarrow> 0
                        | Some t \<Rightarrow> if t = 0 then 0 else now - t);
            r1 = (case writer r of
                    None \<Rightarrow> r
                  | Some w \<Rightarrow> r\<lparr>writer := None, writers_released := Suc (writers_released r)\<rparr>)
        in (Inr (output_path r1, frame_count r1, duration),
            r1\<lparr>is_recording_flag := False, output_path := None, frame_count := 0,
               start_time := None\<rparr>))"

section \<open>Frame pipeline (src/src/core/video_processor.py)\<close>

text \<open>
  The attributes of \<^verbatim>\<open>VideoProcessorThread\<close> that its \<^verbatim>\<open>run\<close> method reads or
  writes, and its three signals, each as the list of values emitted so far. The type
  \<open>'o\<close> is what \<^verbatim>\<open>frame_ready\<close> carries (the processed frame with its detections);
  detection and drawing are outside this model.
\<close>

record 'o VideoProcessorThread =
  source_type :: string
  running :: bool
  paused :: bool
  frame_rate :: real
  last_time :: real
  frame_count_vp :: int
  current_frame_width :: int
  current_frame_height :: int
  zone_detector :: "zone_detector option"
  frame_ready :: "'o list"
  camera_error :: "string list"
  fps_update :: "real list"

text \<open>
  Python's \<^verbatim>\<open>/\<close> on floats raises \<^verbatim>\<open>ZeroDivisionError\<close> for a zero divisor. Floats are
  modelled as real numbers.
\<close>

definition py_truediv :: "real \<Rightarrow> real \<Rightarrow> py_exception + real" where
  "py_truediv a b = (if b = 0 then Inl ZeroDivisionError else Inr (a / b))"

text \<open>
  \<^verbatim>\<open>_update_fps\<close>, with the clock reading as an argument. The division operator is a
  parameter of \<open>update_fps_with\<close>, so that one can say at which divisors the method
  depends on it; \<open>update_fps\<close> is the method itself, with Python's division.
\<close>

definition update_fps_with ::
  "(real \<Rightarrow> real \<Rightarrow> py_exception + real) \<Rightarrow> real \<Rightarrow> 'o VideoProcessorThread
     \<Rightarrow> py_exception + 'o VideoProcessorThread" where
  "update_fps_with truediv current_time s =
     (if current_time - last_time s > 0
      then (case truediv 1 (current_time - last_time s) of
              Inl e \<Rightarrow> Inl e
            | Inr q \<Rightarrow>
                Inr (s\<lparr>frame_rate := q, fps_update := fps_update s @ [q],
                       last_time := current_time, frame_count_vp := frame_count_vp s + 1\<rparr>))
      else Inr (s\<lparr>last_time := current_time, frame_count_vp := frame_count_vp s + 1\<rparr>))"

definition update_fps ::
  "real \<Rightarrow> 'o VideoProcessorThread \<Rightarrow> py_exception + 'o VideoProcessorThread" where
  "update_fps = update_fps_with py_truediv"

text \<open>
  The capture handle: its frame size, the position of the next frame, and whether
  \<^verbatim>\<open>release()\<close> has been called on it.
\<close>

record VideoCapture =
  cap_width :: int
  cap_height :: int
  cap_pos_frames :: int
  cap_released :: bool

text \<open>
  \<^verbatim>\<open>_open_video_source\<close>: what \<^verbatim>\<open>cv2.VideoCapture(source)\<close> does is an input. A
  source that does not open, or a constructor that raises, emits \<^verbatim>\<open>camera_error\<close> and
  gives \<^verbatim>\<open>None\<close>.
\<close>

datatype open_outcome = Opened int int | Not_opened | Open_raised string

definition open_video_source ::
  "open_outcome \<Rightarrow> 'o VideoProcessorThread \<Rightarrow> VideoCapture option \<times> 'o VideoProcessorThread" where
  "open_video_source opening s =
     (case opening of
        Opened w h \<Rightarrow>
          (Some \<lparr>cap_width = w, cap_height = h, cap_pos_frames = 0, cap_released = False\<rparr>, s)
      | Not_opened \<Rightarrow>
          (None, s\<lparr>camera_error :=
                     camera_error s @ [''Cannot open video source: '' @ source_type s]\<rparr>)
      | Open_raised msg \<Rightarrow>
          (None, s\<lparr>camera_error :=
                     camera_error s @ [''Error opening video source: '' @ msg]\<rparr>))"

text \<open>
  The controller thread calls \<^verbatim>\<open>stop\<close>, \<^verbatim>\<open>pause\<close> and \<^verbatim>\<open>resume\<close> while \<^verbatim>\<open>run\<close>
  loops. Each sets one flag; \<^verbatim>\<open>stop\<close> then waits for the thread (its forced
  \<^verbatim>\<open>terminate()\<close> after the timeout is not modelled).
\<close>

datatype command = Stop | Pause | Resume

fun apply_command :: "'o VideoProcessorThread \<Rightarrow> command \<Rightarrow> 'o VideoProcessorThread" where
  "apply_command s Stop = s\<lparr>running := False\<rparr>"
| "apply_command s Pause = s\<lparr>paused := True\<rparr>"
| "apply_command s Resume = s\<lparr>paused := False\<rparr>"

text \<open>
  One pass through the \<^verbatim>\<open>while self.running\<close> loop sees: the controller's calls made
  since the previous test of the loop condition, what reading and processing the next
  frame does, and the clock reading of \<^verbatim>\<open>_update_fps\<close>.
\<close>

datatype 'o frame_outcome =
  Read_raised py_exception
| Read_failed
| Process_raised py_exception
| Processed 'o

record 'o iteration =
  it_commands :: "command list"
  it_outcome :: "'o frame_outcome"
  it_time :: real

datatype loop_ctl = Continue | Break | Raised py_exception

text \<open>
  The body of the loop. A paused thread sleeps and continues. A failed read
  (\<^verbatim>\<open>ret\<close> false) seeks to frame 0 and continues when \<^verbatim>\<open>source_type == "file"\<close>, and
  breaks otherwise. A frame that was read advances the position by one.
\<close>

definition loop_body ::
  "'o iteration \<Rightarrow> VideoCapture \<Rightarrow> 'o VideoProcessorThread
     \<Rightarrow> loop_ctl \<times> VideoCapture \<times> 'o VideoProcessorThread" where
  "loop_body it cap s =
     (if paused s then (Continue, cap, s)
      else case it_outcome it of
             Read_raised e \<Rightarrow> (Raised e, cap, s)
           | Read_failed \<Rightarrow>
               if source_type s = ''file''
               then (Continue, cap\<lparr>cap_pos_frames := 0\<rparr>, s)
               else (Break, cap, s)
           | Process_raised e \<Rightarrow>
               (Raised e, cap\<lparr>cap_pos_frames := cap_pos_frames cap + 1\<rparr>, s)
           | Processed out \<Rightarrow>
               (case update_fps (it_time it) s of
                  Inl e \<Rightarrow> (Raised e, cap\<lparr>cap_pos_frames := cap_pos_frames cap + 1\<rparr>, s)
                | Inr s1 \<Rightarrow>
                    (Continue, cap\<lparr>cap_pos_frames := cap_pos_frames cap + 1\<rparr>,
                     s1\<lparr>frame_ready := frame_ready s1 @ [out]\<rparr>)))"

definition after_commands :: "'o iteration \<Rightarrow> 'o VideoProcessorThread \<Rightarrow> 'o VideoProcessorThread" where
  "after_commands it s = foldl apply_command s (it_commands it)"

text \<open>
  The loop over a finite list of passes. The loop can run for ever; \<open>None\<close> says that
  it is still running after the listed passes.
\<close>

datatype loop_exit = Loop_end | Loop_raised py_exception

fun run_loop ::
  "'o iteration list \<Rightarrow> VideoCapture \<Rightarrow> 'o VideoProcessorThread
     \<Rightarrow> (loop_exit \<times> VideoCapture \<times> 'o VideoProcessorThread) option" where
  "run_loop [] cap s = None"
| "run_loop (it # its) cap s =
     (if \<not> running (after_commands it s) then Some (Loop_end, cap, after_commands it s)
      else case loop_body it cap (after_commands it s) of
             (Continue, cap', s') \<Rightarrow> run_loop its cap' s'
           | (Break, cap', s') \<Rightarrow> Some (Loop_end, cap', s')
           | (Raised e, cap', s') \<Rightarrow> Some (Loop_raised e, cap', s'))"

text \<open>\<^verbatim>\<open>str(e)\<close> of an exception.\<close>

fun str_exception :: "py_exception \<Rightarrow> string" where
  "str_exception (RuntimeError msg) = msg"
| "str_exception ZeroDivisionError = ''float division by zero''"
| "str_exception (Exception msg) = msg"

text \<open>The \<^verbatim>\<open>finally\<close> block: release the handle if there is one, clear \<^verbatim>\<open>running\<close>.\<close>

definition finally_block ::
  "VideoCapture option \<Rightarrow> 'o VideoProcessorThread
     \<Rightarrow> VideoCapture option \<times> 'o VideoProcessorThread" where
  "finally_block cap s =
     (case cap of
        None \<Rightarrow> (None, s\<lparr>running := False\<rparr>)
      | Some c \<Rightarrow> (Some (c\<lparr>cap_released := True\<rparr>), s\<lparr>running := False\<rparr>))"

text \<open>
  \<^verbatim>\<open>run\<close>: open the source (return if that fails), store the frame size, build the
  zone detector, set \<^verbatim>\<open>running\<close> and loop; \<^verbatim>\<open>except Exception\<close> emits
  \<^verbatim>\<open>camera_error\<close>; the \<^verbatim>\<open>finally\<close> block runs on every way out. The result is the
  local variable \<^verbatim>\<open>cap\<close> and the thread's attributes when \<^verbatim>\<open>run\<close> returns.
\<close>

definition run ::
  "open_outcome \<Rightarrow> 'o iteration list \<Rightarrow> 'o VideoProcessorThread
     \<Rightarrow> (VideoCapture option \<times> 'o VideoProcessorThread) option" where
  "run opening its s =
     (case open_video_source opening s of
        (None, s1) \<Rightarrow> Some (finally_block None s1)
      | (Some cap, s1) \<Rightarrow>
          (case run_loop its cap
                  (s1\<lparr>current_frame_width := cap_width cap,
                      current_frame_height := cap_height cap,
                      zone_detector := Some (ZoneDetector (cap_width cap) 3),
                      running := True\<rparr>) of
             None \<Rightarrow> None
           | Some (Loop_end, cap', s2) \<Rightarrow> Some (finally_block (Some cap') s2)
           | Some (Loop_raised e, cap', s2) \<Rightarrow>
               Some (finally_block (Some cap')
                       (s2\<lparr>camera_error :=
                             camera_error s2
                               @ [''Error in video processing: '' @ str_exception e]\<rparr>))))"

section \<open>Properties of the zone classifier\<close>

lemma get_zone_center_x:
  "get_zone zd b (Some c) =
     (if c < left_boundary zd then ''gauche''
      else if c > right_boundary zd then ''droite'' else ''milieu'')"
  by (simp add: get_zone_def)

lemma get_zone_bbox:
  "get_zone zd (Some (x1, y1, x2, y2)) None = get_zone zd None (Some ((x1 + x2) div 2))"
  by (simp add: get_zone_def)

lemma floor_half: "\<lfloor>real_of_int (a + b) / 2\<rfloor> = (a + b) div 2"
proof -
  have "\<lfloor>real_of_int (a + b) / real_of_int 2\<rfloor> = (a + b) div 2"
    by (rule floor_divide_of_int_eq)
  then show ?thesis by simp
qed

lemma ZoneDetector_fields:
  "frame_width (ZoneDetector w d) = w"
  "left_boundary (ZoneDetector w d) = w div 3"
  "right_boundary (ZoneDetector w d) = (2 * w) div 3"
  by (simp_all add: ZoneDetector_def update_boundaries_def)

text \<open>
  C4. Zone classification is a function of the boundaries alone: a centre left of the
  left boundary is \<^verbatim>\<open>"gauche"\<close>, one right of the right boundary is \<^verbatim>\<open>"droite"\<close>,
  anything else \<^verbatim>\<open>"milieu"\<close>; a box alone is classified by the floor of the mean of
  its two x coordinates; with no positional argument the answer is \<^verbatim>\<open>"milieu"\<close>. For
  width 900 the boundaries are 300 and 600, and the centres 150, 450 and 800 fall
  left, centre and right.
\<close>

theorem C4_zone_classification:
  "(c < left_boundary zd \<longrightarrow> get_zone zd b (Some c) = ''gauche'')
   \<and> (\<not> c < left_boundary zd \<and> c > right_boundary zd \<longrightarrow> get_zone zd b (Some c) = ''droite'')
   \<and> (\<not> c < left_boundary zd \<and> \<not> c > right_boundary zd \<longrightarrow> get_zone zd b (Some c) = ''milieu'')
   \<and> get_zone zd (Some (x1, y1, x2, y2)) None
       = get_zone zd None (Some \<lfloor>real_of_int (x1 + x2) / 2\<rfloor>)
   \<and> get_zone zd None None = ''milieu''
   \<and> left_boundary (ZoneDetector 900 3) = 300
   \<and> right_boundary (ZoneDetector 900 3) = 600
   \<and> get_zone (ZoneDetector 900 3) None (Some 150) = ''gauche''
   \<and> get_zone (ZoneDetector 900 3) None (Some 450) = ''milieu''
   \<and> get_zone (ZoneDetector 900 3) None (Some 800) = ''droite''"
proof -
  have box: "get_zone zd (Some (x1, y1, x2, y2)) None
             = get_zone zd None (Some \<lfloor>real_of_int (x1 + x2) / 2\<rfloor>)"
    by (simp only: floor_half get_zone_bbox)
  have none: "get_zone zd None None = ''milieu''"
    by (simp add: get_zone_def)
  show ?thesis
    using box none by (simp add: get_zone_center_x ZoneDetector_fields)
qed

theorem C4_zone_classification_witness:
  "get_zone (ZoneDetector 640 3) (Some (0, 0, 0, 0)) (Some 100) = ''gauche''
   \<and> get_zone (ZoneDetector 640 3) (Some (0, 0, 0, 0)) (Some 500) = ''droite''
   \<and> get_zone (ZoneDetector 640 3) (Some (0, 0, 0, 0)) (Some 300) = ''milieu''
   \<and> get_zone (ZoneDetector 640 3) (Some (101, 7, 200, 9)) None = ''gauche''"
proof -
  have l: "(100::int) < left_boundary (ZoneDetector 640 3)"
    by (simp add: ZoneDetector_fields)
  have r: "\<not> (500::int) < left_boundary (ZoneDetector 640 3)
           \<and> (500::int) > right_boundary (ZoneDetector 640 3)"
    by (simp add: ZoneDetector_fields)
  have m: "\<not> (300::int) < left_boundary (ZoneDetector 640 3)
           \<and> \<not> (300::int) > right_boundary (ZoneDetector 640 3)"
    by (simp add: ZoneDetector_fields)
  have fl: "\<lfloor>real_of_int (101 + 200) / 2\<rfloor> = (150::int)"
    by (simp add: floor_half)
  have l2: "(150::int) < left_boundary (ZoneDetector 640 3)"
    by (simp add: ZoneDetector_fields)
  note a = C4_zone_classification [where c = 100 and zd = "ZoneDetector 640 3" and b = "Some (0, 0, 0, 0)"
      and ?x1.0 = 101 and ?y1.0 = 7 and ?x2.0 = 200 and ?y2.0 = 9]
  note b = C4_zone_classification [where c = 500 and zd = "ZoneDetector 640 3" and b = "Some (0, 0, 0, 0)"]
  note c = C4_zone_classification [where c = 300 and zd = "ZoneDetector 640 3" and b = "Some (0, 0, 0, 0)"]
  note d = C4_zone_classification [where c = 150 and zd = "ZoneDetector 640 3" and b = None]
  have "get_zone (ZoneDetector 640 3) (Some (101, 7, 200, 9)) None
        = get_zone (ZoneDetector 640 3) None (Some 150)"
    using a fl by simp
  moreover have "get_zone (ZoneDetector 640 3) None (Some 150) = ''gauche''"
    using d l2 by blast
  ultimately show ?thesis using a b c l r m by simp
qed

text \<open>
  C5. For every frame width \<open>W \<ge> 0\<close> the boundaries computed for three divisions are
  \<open>W div 3\<close> and \<open>2 * W div 3\<close> and satisfy \<open>0 \<le> left \<le> right \<le> W\<close>; and for every
  argument combination the classifier returns exactly one of the three zone names.
\<close>

theorem C5_boundaries_ordered:
  assumes "0 \<le> W"
  shows "left_boundary (ZoneDetector W 3) = W div 3
         \<and> right_boundary (ZoneDetector W 3) = (2 * W) div 3
         \<and> 0 \<le> left_boundary (ZoneDetector W 3)
         \<and> left_boundary (ZoneDetector W 3) \<le> right_boundary (ZoneDetector W 3)
         \<and> right_boundary (ZoneDetector W 3) \<le> W
         \<and> (\<exists>!z. z \<in> {''gauche'', ''milieu'', ''droite''}
                 \<and> get_zone (ZoneDetector W 3) b cx = z)"
proof -
  have ord: "0 \<le> W div 3" "W div 3 \<le> (2 * W) div 3" "(2 * W) div 3 \<le> W"
    using assms by linarith+
  have one: "\<exists>!z. z \<in> {''gauche'', ''milieu'', ''droite''}
                 \<and> get_zone (ZoneDetector W 3) b cx = z"
    by (auto simp add: get_zone_def split: option.splits)
  from ord have "0 \<le> left_boundary (ZoneDetector W 3)"
    "left_boundary (ZoneDetector W 3) \<le> right_boundary (ZoneDetector W 3)"
    "right_boundary (ZoneDetector W 3) \<le> W"
    by (simp_all only: ZoneDetector_fields)
  with one show ?thesis
    by (simp only: ZoneDetector_fields simp_thms)
qed

theorem C5_boundaries_ordered_witness:
  "left_boundary (ZoneDetector 640 3) = 213
   \<and> right_boundary (ZoneDetector 640 3) = 426
   \<and> get_zone (ZoneDetector 640 3) None (Some 426) = ''milieu''"
proof -
  have w: "(0::int) \<le> 640" by simp
  have "get_zone (ZoneDetector 640 3) None (Some 426) = ''milieu''"
    by (simp add: get_zone_center_x ZoneDetector_fields)
  then show ?thesis
    using C5_boundaries_ordered [OF w, of None "Some 426"] by simp
qed

section \<open>Properties of the voice notification manager\<close>

lemma init_fields:
  "tts_engine (VoiceNotificationManager_init e c) = e"
  "cooldown (VoiceNotificationManager_init e c) = c"
  "last_spoken_time (VoiceNotificationManager_init e c) = Map.empty"
  "spoken_objects (VoiceNotificationManager_init e c) = {}"
  by (simp_all add: VoiceNotificationManager_init_def)

lemmas voice_eval =
  handle_voice_notifications_def group_detections_def add_detection_def det_key_def
  announce_detection_def announce_no_detection_def cleanup_old_objects_def
  in_cooldown_def no_detection_due_def object_zone_id_def no_detection_id_def
  detection_message_def speak_def Let_def init_fields


lemma queue_append_neq: "xs @ [x] \<noteq> xs" by simp

lemma announce_detection_cooling:
  "in_cooldown m (object_zone_id cn z) t \<Longrightarrow> announce_detection cn z iz cnt t m = m"
  by (simp add: announce_detection_def Let_def)

lemma announce_detection_fires:
  "\<not> in_cooldown m (object_zone_id cn z) t \<Longrightarrow>
   announce_detection cn z iz cnt t m =
     m\<lparr>tts_engine := speak (detection_message cn z iz cnt) False (tts_engine m),
       last_spoken_time := (last_spoken_time m)(object_zone_id cn z \<mapsto> t),
       spoken_objects := insert (object_zone_id cn z) (spoken_objects m)\<rparr>"
  by (simp add: announce_detection_def Let_def)

lemma speak_queue: "message_queue (speak msg False e) = message_queue e @ [msg]"
  by (simp add: speak_def)

text \<open>
  C2. Fix a class name and a zone. If \<^verbatim>\<open>announce_detection\<close> announces the pair at time
  \<open>t\<close> (the call queues its message), then a call for the same pair at a time \<open>t'\<close>
  with \<open>t' - t < cooldown\<close> queues nothing and leaves the recorded timestamp \<open>t\<close>,
  and a call with \<open>t' - t \<ge> cooldown\<close> queues its message and records \<open>t'\<close>.
\<close>

theorem C2_cooldown:
  assumes first: "m1 = announce_detection cn z iz cnt t m0"
    and announced: "message_queue (tts_engine m1)
                    = message_queue (tts_engine m0) @ [detection_message cn z iz cnt]"
  shows "cooldown m1 = cooldown m0
     \<and> last_spoken_time m1 (object_zone_id cn z) = Some t
     \<and> (t' - t < cooldown m0 \<longrightarrow>
          message_queue (tts_engine (announce_detection cn z iz' cnt' t' m1))
            = message_queue (tts_engine m1)
          \<and> last_spoken_time (announce_detection cn z iz' cnt' t' m1) (object_zone_id cn z)
            = Some t)
     \<and> (t' - t \<ge> cooldown m0 \<longrightarrow>
          message_queue (tts_engine (announce_detection cn z iz' cnt' t' m1))
            = message_queue (tts_engine m1) @ [detection_message cn z iz' cnt']
          \<and> last_spoken_time (announce_detection cn z iz' cnt' t' m1) (object_zone_id cn z)
            = Some t')"
proof -
  have fired: "\<not> in_cooldown m0 (object_zone_id cn z) t"
  proof
    assume "in_cooldown m0 (object_zone_id cn z) t"
    then have "m1 = m0" using first by (simp add: announce_detection_cooling)
    with announced show False by simp
  qed
  have m1: "m1 = m0\<lparr>tts_engine := speak (detection_message cn z iz cnt) False (tts_engine m0),
       last_spoken_time := (last_spoken_time m0)(object_zone_id cn z \<mapsto> t),
       spoken_objects := insert (object_zone_id cn z) (spoken_objects m0)\<rparr>"
    using first fired by (simp add: announce_detection_fires)
  have c: "cooldown m1 = cooldown m0" and ts: "last_spoken_time m1 (object_zone_id cn z) = Some t"
    by (simp_all add: m1)
  have cool: "in_cooldown m1 (object_zone_id cn z) t' = (t' - t < cooldown m0)"
    by (simp add: in_cooldown_def ts c)
  have early: "t' - t < cooldown m0 \<Longrightarrow> announce_detection cn z iz' cnt' t' m1 = m1"
    using cool by (simp add: announce_detection_cooling)
  have late: "t' - t \<ge> cooldown m0 \<Longrightarrow>
      message_queue (tts_engine (announce_detection cn z iz' cnt' t' m1))
            = message_queue (tts_engine m1) @ [detection_message cn z iz' cnt']
          \<and> last_spoken_time (announce_detection cn z iz' cnt' t' m1) (object_zone_id cn z)
            = Some t'"
    using cool by (simp add: announce_detection_fires speak_queue)
  show ?thesis using c ts early late by simp
qed

text \<open>Scenario B: cooldown 5, announced at 0; silent at 3, announced again at 5.1.\<close>

theorem C2_cooldown_witness:
  "message_queue (tts_engine (announce_detection ''person'' ''gauche'' True 1 3
       (announce_detection ''person'' ''gauche'' True 1 0
          (VoiceNotificationManager_init \<lparr>message_queue = []\<rparr> 5))))
     = [''person '' @ a_grave @ '' gauche'']
   \<and> message_queue (tts_engine (announce_detection ''person'' ''gauche'' True 1 5.1
       (announce_detection ''person'' ''gauche'' True 1 0
          (VoiceNotificationManager_init \<lparr>message_queue = []\<rparr> 5))))
     = [''person '' @ a_grave @ '' gauche'', ''person '' @ a_grave @ '' gauche'']"
proof -
  let ?m0 = "VoiceNotificationManager_init \<lparr>message_queue = []\<rparr> 5"
  let ?m1 = "announce_detection ''person'' ''gauche'' True 1 0 ?m0"
  have q1: "message_queue (tts_engine ?m1)
            = message_queue (tts_engine ?m0) @ [detection_message ''person'' ''gauche'' True 1]"
    by (simp add: announce_detection_def Let_def in_cooldown_def VoiceNotificationManager_init_def
        speak_def)
  have msg: "detection_message ''person'' ''gauche'' True 1 = ''person '' @ a_grave @ '' gauche''"
    by (simp add: detection_message_def)
  have q0: "message_queue (tts_engine ?m0) = []" and c0: "cooldown ?m0 = 5"
    by (simp_all add: VoiceNotificationManager_init_def)
  note a = C2_cooldown [OF refl q1, where t' = 3 and iz' = True and cnt' = 1]
  note b = C2_cooldown [OF refl q1, where t' = "5.1" and iz' = True and cnt' = 1]
  have "(3::real) - 0 < cooldown ?m0" "(5.1::real) - 0 \<ge> cooldown ?m0"
    by (simp_all add: c0)
  then show ?thesis
    using a b q1 by (simp add: q0 msg)
qed

text \<open>
  C10. The two cooldown tests differ at the boundary. With a recorded "no detection"
  timestamp \<open>t0\<close>, \<^verbatim>\<open>announce_no_detection\<close> at time \<open>t\<close> speaks exactly when
  \<open>t - t0 > cooldown\<close>, so at \<open>t - t0 = cooldown\<close> it does nothing. With a recorded
  timestamp \<open>t0\<close> for a class and zone, \<^verbatim>\<open>announce_detection\<close> at time \<open>t\<close> speaks
  exactly when \<open>t - t0 \<ge> cooldown\<close>, so at \<open>t - t0 = cooldown\<close> it speaks.
\<close>

theorem C10_cooldown_boundary_asymmetric:
  "(last_spoken_time m no_detection_id = Some t0 \<longrightarrow>
      (message_queue (tts_engine (announce_no_detection t m))
         = message_queue (tts_engine m) @ [no_detection_message]) = (t - t0 > cooldown m)
      \<and> (announce_no_detection t m = m) = (\<not> t - t0 > cooldown m))
   \<and> (last_spoken_time m no_detection_id = Some t0 \<and> t - t0 = cooldown m \<longrightarrow>
        announce_no_detection t m = m)
   \<and> (last_spoken_time m (object_zone_id cn z) = Some t0 \<longrightarrow>
      (message_queue (tts_engine (announce_detection cn z iz cnt t m))
         = message_queue (tts_engine m) @ [detection_message cn z iz cnt]) = (t - t0 \<ge> cooldown m)
      \<and> (announce_detection cn z iz cnt t m = m) = (\<not> t - t0 \<ge> cooldown m))
   \<and> (last_spoken_time m (object_zone_id cn z) = Some t0 \<and> t - t0 = cooldown m \<longrightarrow>
        message_queue (tts_engine (announce_detection cn z iz cnt t m))
          = message_queue (tts_engine m) @ [detection_message cn z iz cnt]
        \<and> last_spoken_time (announce_detection cn z iz cnt t m) (object_zone_id cn z) = Some t)"
proof -
  have nd: "last_spoken_time m no_detection_id = Some t0 \<Longrightarrow>
      (message_queue (tts_engine (announce_no_detection t m))
         = message_queue (tts_engine m) @ [no_detection_message]) = (t - t0 > cooldown m)
      \<and> (announce_no_detection t m = m) = (\<not> t - t0 > cooldown m)"
  proof (cases "t - t0 > cooldown m")
    case True
    assume k: "last_spoken_time m no_detection_id = Some t0"
    have "message_queue (tts_engine (announce_no_detection t m))
         = message_queue (tts_engine m) @ [no_detection_message]"
      using True k by (simp add: announce_no_detection_def no_detection_due_def speak_queue)
    moreover from this have "announce_no_detection t m \<noteq> m"
      by (metis queue_append_neq)
    ultimately show ?thesis using True by simp
  next
    case False
    assume k: "last_spoken_time m no_detection_id = Some t0"
    have "announce_no_detection t m = m"
      using False k by (simp add: announce_no_detection_def no_detection_due_def)
    then show ?thesis using False by simp
  qed
  have d: "last_spoken_time m (object_zone_id cn z) = Some t0 \<Longrightarrow>
      (message_queue (tts_engine (announce_detection cn z iz cnt t m))
         = message_queue (tts_engine m) @ [detection_message cn z iz cnt]) = (t - t0 \<ge> cooldown m)
      \<and> (announce_detection cn z iz cnt t m = m) = (\<not> t - t0 \<ge> cooldown m)
      \<and> (t - t0 \<ge> cooldown m \<longrightarrow>
           last_spoken_time (announce_detection cn z iz cnt t m) (object_zone_id cn z) = Some t)"
  proof (cases "t - t0 \<ge> cooldown m")
    case True
    assume k: "last_spoken_time m (object_zone_id cn z) = Some t0"
    from True k have nc: "\<not> in_cooldown m (object_zone_id cn z) t"
      by (simp add: in_cooldown_def)
    have q: "message_queue (tts_engine (announce_detection cn z iz cnt t m))
         = message_queue (tts_engine m) @ [detection_message cn z iz cnt]"
      using nc by (simp add: announce_detection_fires speak_queue)
    from q have "announce_detection cn z iz cnt t m \<noteq> m"
      by (metis queue_append_neq)
    moreover have "last_spoken_time (announce_detection cn z iz cnt t m) (object_zone_id cn z) = Some t"
      using nc by (simp add: announce_detection_fires)
    ultimately show ?thesis using True q by simp
  next
    case False
    assume k: "last_spoken_time m (object_zone_id cn z) = Some t0"
    from False k have "in_cooldown m (object_zone_id cn z) t"
      by (simp add: in_cooldown_def)
    then have "announce_detection cn z iz cnt t m = m"
      by (rule announce_detection_cooling)
    then show ?thesis using False by simp
  qed
  show ?thesis using nd d by simp
qed

theorem C10_cooldown_boundary_asymmetric_witness:
  "announce_no_detection 5
     \<lparr>tts_engine = \<lparr>message_queue = []\<rparr>, cooldown = 5,
      last_spoken_time = [''no_detection'' \<mapsto> 0, ''person_gauche'' \<mapsto> 0],
      spoken_objects = {}\<rparr>
   = \<lparr>tts_engine = \<lparr>message_queue = []\<rparr>, cooldown = 5,
      last_spoken_time = [''no_detection'' \<mapsto> 0, ''person_gauche'' \<mapsto> 0],
      spoken_objects = {}\<rparr>
   \<and> message_queue (tts_engine (announce_detection ''person'' ''gauche'' False 1 5
     \<lparr>tts_engine = \<lparr>message_queue = []\<rparr>, cooldown = 5,
      last_spoken_time = [''no_detection'' \<mapsto> 0, ''person_gauche'' \<mapsto> 0],
      spoken_objects = {}\<rparr>))
   = [''person'']"
proof -
  let ?m = "\<lparr>tts_engine = \<lparr>message_queue = []\<rparr>, cooldown = 5,
      last_spoken_time = [''no_detection'' \<mapsto> 0, ''person_gauche'' \<mapsto> (0::real)],
      spoken_objects = {}\<rparr>"
  have k1: "last_spoken_time ?m no_detection_id = Some 0 \<and> (5::real) - 0 = cooldown ?m"
    by (simp add: no_detection_id_def)
  have k2: "last_spoken_time ?m (object_zone_id ''person'' ''gauche'') = Some 0
            \<and> (5::real) - 0 = cooldown ?m"
    by (simp add: object_zone_id_def)
  have msg: "detection_message ''person'' ''gauche'' False 1 = ''person''"
    by (simp add: detection_message_def)
  note a = C10_cooldown_boundary_asymmetric
    [where m = ?m and ?t0.0 = 0 and t = 5 and cn = "''person''" and z = "''gauche''"
       and iz = False and cnt = 1]
  show ?thesis using a k1 k2 msg by simp
qed

lemma announce_detection_cooldown [simp]:
  "cooldown (announce_detection cn z iz cnt t m) = cooldown m"
  by (simp add: announce_detection_def Let_def)

lemma announce_detection_other_key:
  "k \<noteq> object_zone_id cn z \<Longrightarrow>
   last_spoken_time (announce_detection cn z iz cnt t m) k = last_spoken_time m k"
  by (simp add: announce_detection_def Let_def)

lemma announce_detection_keeps_dom:
  "last_spoken_time m k \<noteq> None \<Longrightarrow>
   last_spoken_time (announce_detection cn z iz cnt t m) k \<noteq> None"
  by (simp add: announce_detection_def Let_def)

lemma announce_each_cooldown [simp]:
  "cooldown (announce_each iz clock i objs m) = cooldown m"
  by (induction objs arbitrary: i m) simp_all

lemma announce_each_keeps_dom:
  "last_spoken_time m k \<noteq> None \<Longrightarrow>
   last_spoken_time (announce_each iz clock i objs m) k \<noteq> None"
proof (induction objs arbitrary: i m)
  case Nil
  then show ?case by simp
next
  case (Cons obj rest)
  have "last_spoken_time
          (announce_detection (info_class obj) (info_zone obj) iz (info_count obj) (clock i) m) k
        \<noteq> None"
    using Cons.prems by (rule announce_detection_keeps_dom)
  then have "last_spoken_time
          (announce_each iz clock (Suc i) rest
             (announce_detection (info_class obj) (info_zone obj) iz (info_count obj) (clock i) m))
          k \<noteq> None"
    by (rule Cons.IH)
  then show ?case by simp
qed

lemma announce_each_other_key:
  "\<forall>obj \<in> set objs. object_zone_id (info_class obj) (info_zone obj) \<noteq> k \<Longrightarrow>
   last_spoken_time (announce_each iz clock i objs m) k = last_spoken_time m k"
  by (induction objs arbitrary: i m) (auto simp add: announce_detection_other_key)

lemma cleanup_keeps_no_detection:
  "last_spoken_time (cleanup_old_objects S m) ''no_detection'' = last_spoken_time m ''no_detection''"
  by (simp add: cleanup_old_objects_def)

lemma cleanup_cooldown [simp]: "cooldown (cleanup_old_objects S m) = cooldown m"
  by (simp add: cleanup_old_objects_def)

lemma zone_key_not_reserved:
  assumes "z \<in> {''gauche'', ''milieu'', ''droite''}"
  shows "object_zone_id cn z \<noteq> ''no_detection''"
proof
  assume eq: "object_zone_id cn z = ''no_detection''"
  from assms have "z \<noteq> []" by auto
  then have "last (object_zone_id cn z) = last z"
    by (simp add: object_zone_id_def)
  with eq have "last z = CHR ''n''" by simp
  with assms show False by auto
qed

lemma bump_count_zone_list:
  "map (\<lambda>p. info_zone (snd p)) (bump_count key zo) = map (\<lambda>p. info_zone (snd p)) zo"
  by (induction zo) auto

lemma bump_count_zones:
  "info_zone ` snd ` set (bump_count key zo) = info_zone ` snd ` set zo"
proof -
  have "set (map (\<lambda>p. info_zone (snd p)) (bump_count key zo))
        = set (map (\<lambda>p. info_zone (snd p)) zo)"
    by (simp only: bump_count_zone_list)
  then show ?thesis by (simp add: image_image)
qed

lemma add_detection_zones:
  "info_zone ` snd ` set (add_detection zo det) \<subseteq> insert (det_zone det) (info_zone ` snd ` set zo)"
  unfolding add_detection_def Let_def bump_count_zones by auto

lemma foldl_add_detection_zones:
  "info_zone ` snd ` set (foldl add_detection zo dets)
     \<subseteq> info_zone ` snd ` set zo \<union> det_zone ` set dets"
proof (induction dets arbitrary: zo)
  case Nil
  then show ?case by simp
next
  case (Cons d ds)
  have "info_zone ` snd ` set (foldl add_detection (add_detection zo d) ds)
        \<subseteq> info_zone ` snd ` set (add_detection zo d) \<union> det_zone ` set ds"
    by (rule Cons.IH)
  also have "\<dots> \<subseteq> insert (det_zone d) (info_zone ` snd ` set zo) \<union> det_zone ` set ds"
    using add_detection_zones [of zo d] by blast
  finally show ?case by auto
qed

lemma group_detections_zones:
  "obj \<in> set (map snd (group_detections dets)) \<Longrightarrow> info_zone obj \<in> det_zone ` set dets"
  using foldl_add_detection_zones [of "[]" dets]
  by (auto simp add: group_detections_def)

text \<open>
  C3 (as the code has it). Handling a frame with detections never removes the
  \<^verbatim>\<open>"no_detection"\<close> entry: \<^verbatim>\<open>cleanup_old_objects\<close> skips that key. When the zones of
  the detections are the classifier's three names, the entry keeps its timestamp, so
  whether a later "no detection" announcement is due is still measured from the old
  timestamp.
\<close>

theorem C3_no_detection_timestamp_retained:
  assumes nonempty: "detections \<noteq> []"
  shows "(last_spoken_time m ''no_detection'' \<noteq> None \<longrightarrow>
           last_spoken_time (handle_voice_notifications v zc clock detections m) ''no_detection''
             \<noteq> None)
     \<and> ((\<forall>d \<in> set detections. det_zone d \<in> {''gauche'', ''milieu'', ''droite''}) \<longrightarrow>
           last_spoken_time (handle_voice_notifications v zc clock detections m) ''no_detection''
             = last_spoken_time m ''no_detection''
         \<and> no_detection_due (handle_voice_notifications v zc clock detections m) t
             = no_detection_due m t)"
proof (cases v)
  case False
  then show ?thesis by (simp add: handle_voice_notifications_def)
next
  case True
  let ?objs = "map snd (group_detections detections)"
  let ?m' = "announce_each zc clock 0 ?objs m"
  have h: "handle_voice_notifications v zc clock detections m
           = cleanup_old_objects (set (map det_key detections)) ?m'"
    using True nonempty by (simp add: handle_voice_notifications_def)
  have dom: "last_spoken_time m ''no_detection'' \<noteq> None \<Longrightarrow>
             last_spoken_time (handle_voice_notifications v zc clock detections m) ''no_detection''
               \<noteq> None"
    by (simp only: h cleanup_keeps_no_detection) (rule announce_each_keeps_dom)
  have same: "last_spoken_time (handle_voice_notifications v zc clock detections m) ''no_detection''
               = last_spoken_time m ''no_detection''"
    if zones: "\<forall>d \<in> set detections. det_zone d \<in> {''gauche'', ''milieu'', ''droite''}"
  proof -
    have "\<forall>obj \<in> set ?objs. object_zone_id (info_class obj) (info_zone obj) \<noteq> ''no_detection''"
    proof
      fix obj assume "obj \<in> set ?objs"
      then have "info_zone obj \<in> det_zone ` set detections"
        by (rule group_detections_zones)
      with zones have "info_zone obj \<in> {''gauche'', ''milieu'', ''droite''}" by auto
      then show "object_zone_id (info_class obj) (info_zone obj) \<noteq> ''no_detection''"
        by (rule zone_key_not_reserved)
    qed
    then have "last_spoken_time ?m' ''no_detection'' = last_spoken_time m ''no_detection''"
      by (rule announce_each_other_key)
    then show ?thesis by (simp only: h cleanup_keeps_no_detection)
  qed
  have cd: "cooldown (handle_voice_notifications v zc clock detections m) = cooldown m"
    by (simp add: h)
  have due: "no_detection_due (handle_voice_notifications v zc clock detections m) t
             = no_detection_due m t"
    if zones: "\<forall>d \<in> set detections. det_zone d \<in> {''gauche'', ''milieu'', ''droite''}"
    unfolding no_detection_due_def no_detection_id_def
    by (simp only: same [OF zones] cd)
  show ?thesis using dom same due by blast
qed

theorem C3_no_detection_timestamp_retained_witness:
  "last_spoken_time
     (handle_voice_notifications True True (clock_at 1)
        [\<lparr>det_class = ''person'', det_zone = ''gauche''\<rparr>]
        (handle_voice_notifications True True (clock_at 0) []
           (VoiceNotificationManager_init \<lparr>message_queue = []\<rparr> 5)))
     ''no_detection''
   = Some 0"
proof -
  let ?m1 = "handle_voice_notifications True True (clock_at 0) []
           (VoiceNotificationManager_init \<lparr>message_queue = []\<rparr> 5)"
  let ?ds = "[\<lparr>det_class = ''person'', det_zone = ''gauche''\<rparr>]"
  have ne: "?ds \<noteq> []" by simp
  have zs: "\<forall>d \<in> set ?ds. det_zone d \<in> {''gauche'', ''milieu'', ''droite''}" by simp
  have m1: "last_spoken_time ?m1 ''no_detection'' = Some 0"
    by (simp add: voice_eval clock_at_def)
  show ?thesis
    using C3_no_detection_timestamp_retained [OF ne, of ?m1 True True "clock_at 1" 0] zs m1
    by simp
qed

text \<open>
  C3 as stated fails: after an empty frame at time 0 and a frame with one detection at
  time 1 the \<^verbatim>\<open>"no_detection"\<close> timestamp is still recorded, and an empty frame at
  time 2 (cooldown 5) announces nothing.
\<close>

theorem C3_counterexample:
  "last_spoken_time
     (handle_voice_notifications True True (clock_at 1)
        [\<lparr>det_class = ''person'', det_zone = ''gauche''\<rparr>]
        (handle_voice_notifications True True (clock_at 0) []
           (VoiceNotificationManager_init \<lparr>message_queue = []\<rparr> 5)))
     ''no_detection''
   \<noteq> None
   \<and> message_queue (tts_engine
       (handle_voice_notifications True True (clock_at 2) []
         (handle_voice_notifications True True (clock_at 1)
            [\<lparr>det_class = ''person'', det_zone = ''gauche''\<rparr>]
            (handle_voice_notifications True True (clock_at 0) []
               (VoiceNotificationManager_init \<lparr>message_queue = []\<rparr> 5)))))
     = message_queue (tts_engine
         (handle_voice_notifications True True (clock_at 1)
            [\<lparr>det_class = ''person'', det_zone = ''gauche''\<rparr>]
            (handle_voice_notifications True True (clock_at 0) []
               (VoiceNotificationManager_init \<lparr>message_queue = []\<rparr> 5))))"
  by (simp add: voice_eval clock_at_def)

text \<open>
  C1. Handling an empty frame once the cooldown allows it queues one "no objects"
  message and records its timestamp, but it clears \<^verbatim>\<open>spoken_objects\<close> only: the
  timestamp of \<^verbatim>\<open>"person_gauche"\<close> recorded at time 0 survives the empty frame at time
  1, and the same object seen again at time 2 (cooldown 5) is not announced.
\<close>

theorem C1_object_timestamps_survive_no_detection:
  "message_queue (tts_engine
     (handle_voice_notifications True True (clock_at 1) []
        (handle_voice_notifications True True (clock_at 0)
           [\<lparr>det_class = ''person'', det_zone = ''gauche''\<rparr>]
           (VoiceNotificationManager_init \<lparr>message_queue = []\<rparr> 5))))
     = [''person '' @ a_grave @ '' gauche'', no_detection_message]
   \<and> last_spoken_time
     (handle_voice_notifications True True (clock_at 1) []
        (handle_voice_notifications True True (clock_at 0)
           [\<lparr>det_class = ''person'', det_zone = ''gauche''\<rparr>]
           (VoiceNotificationManager_init \<lparr>message_queue = []\<rparr> 5)))
     ''person_gauche'' = Some 0
   \<and> message_queue (tts_engine
     (handle_voice_notifications True True (clock_at 2)
        [\<lparr>det_class = ''person'', det_zone = ''gauche''\<rparr>]
        (handle_voice_notifications True True (clock_at 1) []
           (handle_voice_notifications True True (clock_at 0)
              [\<lparr>det_class = ''person'', det_zone = ''gauche''\<rparr>]
              (VoiceNotificationManager_init \<lparr>message_queue = []\<rparr> 5)))))
     = [''person '' @ a_grave @ '' gauche'', no_detection_message]"
  by (simp add: voice_eval clock_at_def)

section \<open>Properties of the video recorder\<close>

text \<open>
  C7. In every recorder state with a session active, \<^verbatim>\<open>start_recording\<close> returns the
  stored output path and leaves the recorder as it was: no writer is constructed, and
  the writer, output path, frame count and start time are unchanged. In every state
  with no session active, \<^verbatim>\<open>stop_recording\<close> returns \<^verbatim>\<open>(None, 0, 0.0)\<close>, raises nothing
  and leaves the recorder as it was.
\<close>

theorem C7_recorder_session_exclusive:
  "(is_recording_flag r \<longrightarrow>
      start_recording width height fps codec timestamp now opens r = (Inr (output_path r), r))
   \<and> (is_recording_flag r \<longrightarrow>
        writers_created (snd (start_recording width height fps codec timestamp now opens r))
          = writers_created r
        \<and> writer (snd (start_recording width height fps codec timestamp now opens r)) = writer r
        \<and> output_path (snd (start_recording width height fps codec timestamp now opens r))
          = output_path r
        \<and> frame_count (snd (start_recording width height fps codec timestamp now opens r))
          = frame_count r
        \<and> start_time (snd (start_recording width height fps codec timestamp now opens r))
          = start_time r)
   \<and> (\<not> is_recording_flag r \<longrightarrow> stop_recording now r = (Inr (None, 0, 0), r))"
  by (simp add: start_recording_def stop_recording_def)

theorem C7_recorder_session_exclusive_witness:
  "start_recording 640 480 20 ''mp4v'' ''20250102_030405'' 12 True
     (snd (start_recording 640 480 20 ''mp4v'' ''20250101_000000'' 10 True
        \<lparr>output_dir = ''rec'', writer = None, output_path = None, is_recording_flag = False,
         frame_count = 0, start_time = None, writers_created = 0, writers_released = 0\<rparr>))
   = (Inr (Some ''rec/recording_20250101_000000.mp4''),
      \<lparr>output_dir = ''rec'',
       writer = Some \<lparr>vw_path = ''rec/recording_20250101_000000.mp4'', vw_is_opened = True,
                      vw_frames = ([] :: nat list)\<rparr>,
       output_path = Some ''rec/recording_20250101_000000.mp4'', is_recording_flag = True,
       frame_count = 0, start_time = Some 10, writers_created = 1, writers_released = 0\<rparr>)
   \<and> stop_recording 3
       \<lparr>output_dir = ''rec'', writer = None, output_path = None, is_recording_flag = False,
        frame_count = 0, start_time = None, writers_created = 0, writers_released = 0\<rparr>
     = (Inr (None, 0, 0),
        \<lparr>output_dir = ''rec'', writer = (None :: nat VideoWriter option), output_path = None,
         is_recording_flag = False,
         frame_count = 0, start_time = None, writers_created = 0, writers_released = 0\<rparr>)"
proof -
  let ?r0 = "\<lparr>output_dir = ''rec'', writer = (None :: nat VideoWriter option),
       output_path = None, is_recording_flag = False,
       frame_count = 0, start_time = None, writers_created = 0, writers_released = 0\<rparr>"
  let ?r1 = "snd (start_recording 640 480 20 ''mp4v'' ''20250101_000000'' 10 True ?r0)"
  have r1: "?r1 = \<lparr>output_dir = ''rec'',
       writer = Some \<lparr>vw_path = ''rec/recording_20250101_000000.mp4'', vw_is_opened = True,
                      vw_frames = []\<rparr>,
       output_path = Some ''rec/recording_20250101_000000.mp4'', is_recording_flag = True,
       frame_count = 0, start_time = Some 10, writers_created = 1, writers_released = 0\<rparr>"
    by (simp add: start_recording_def Let_def)
  have active: "is_recording_flag ?r1" by (simp add: r1)
  have idle: "\<not> is_recording_flag ?r0" by simp
  note a = C7_recorder_session_exclusive
    [where r = ?r1 and width = 640 and height = 480 and fps = 20 and codec = "''mp4v''"
       and timestamp = "''20250102_030405''" and now = 12 and opens = True]
  note b = C7_recorder_session_exclusive [where r = ?r0 and now = 3]
  from a active
  have "start_recording 640 480 20 ''mp4v'' ''20250102_030405'' 12 True ?r1
        = (Inr (output_path ?r1), ?r1)"
    by blast
  moreover from b idle have "stop_recording 3 ?r0 = (Inr (None, 0, 0), ?r0)"
    by blast
  ultimately show ?thesis by (simp add: r1)
qed

text \<open>
  C8. \<^verbatim>\<open>write_frame\<close> never lets an exception escape. It returns \<^verbatim>\<open>False\<close> and changes
  nothing when no session is active or there is no writer; when the write succeeds it
  returns \<^verbatim>\<open>True\<close>, the frame count grows by exactly one and the frame is appended to
  the writer; when the write raises it returns \<^verbatim>\<open>False\<close> and changes nothing.
\<close>

theorem C8_write_frame_never_raises:
  "(\<exists>b. fst (write_frame frame outcome r) = Inr b)
   \<and> (\<not> is_recording_flag r \<longrightarrow> write_frame frame outcome r = (Inr False, r))
   \<and> (writer r = None \<longrightarrow> write_frame frame outcome r = (Inr False, r))
   \<and> (is_recording_flag r \<and> writer r = Some w \<and> outcome = Write_ok \<longrightarrow>
        fst (write_frame frame outcome r) = Inr True
        \<and> frame_count (snd (write_frame frame outcome r)) = frame_count r + 1
        \<and> writer (snd (write_frame frame outcome r))
            = Some (w\<lparr>vw_frames := vw_frames w @ [frame]\<rparr>))
   \<and> (is_recording_flag r \<and> writer r = Some w \<and> outcome = Write_raises msg \<longrightarrow>
        write_frame frame outcome r = (Inr False, r))"
  by (cases outcome) (auto simp add: write_frame_def writer_write_def split: option.splits)

theorem C8_write_frame_never_raises_witness:
  "write_frame (7::nat) Write_ok
     \<lparr>output_dir = ''rec'', writer = None, output_path = None, is_recording_flag = False,
      frame_count = 0, start_time = None, writers_created = 0, writers_released = 0\<rparr>
   = (Inr False,
      \<lparr>output_dir = ''rec'', writer = None, output_path = None, is_recording_flag = False,
       frame_count = 0, start_time = None, writers_created = 0, writers_released = 0\<rparr>)
   \<and> fst (write_frame (7::nat) Write_ok
     \<lparr>output_dir = ''rec'', writer = Some \<lparr>vw_path = ''p'', vw_is_opened = True, vw_frames = []\<rparr>,
      output_path = Some ''p'', is_recording_flag = True,
      frame_count = 4, start_time = Some 1, writers_created = 1, writers_released = 0\<rparr>)
     = Inr True
   \<and> frame_count (snd (write_frame (7::nat) Write_ok
     \<lparr>output_dir = ''rec'', writer = Some \<lparr>vw_path = ''p'', vw_is_opened = True, vw_frames = []\<rparr>,
      output_path = Some ''p'', is_recording_flag = True,
      frame_count = 4, start_time = Some 1, writers_created = 1, writers_released = 0\<rparr>))
     = 5
   \<and> write_frame (7::nat) (Write_raises ''disk full'')
     \<lparr>output_dir = ''rec'', writer = Some \<lparr>vw_path = ''p'', vw_is_opened = True, vw_frames = []\<rparr>,
      output_path = Some ''p'', is_recording_flag = True,
      frame_count = 4, start_time = Some 1, writers_created = 1, writers_released = 0\<rparr>
     = (Inr False,
     \<lparr>output_dir = ''rec'', writer = Some \<lparr>vw_path = ''p'', vw_is_opened = True, vw_frames = []\<rparr>,
      output_path = Some ''p'', is_recording_flag = True,
      frame_count = 4, start_time = Some 1, writers_created = 1, writers_released = 0\<rparr>)"
proof -
  let ?r0 = "\<lparr>output_dir = ''rec'', writer = (None :: nat VideoWriter option),
       output_path = None, is_recording_flag = False,
       frame_count = 0, start_time = None, writers_created = 0, writers_released = 0\<rparr>"
  let ?w = "\<lparr>vw_path = ''p'', vw_is_opened = True, vw_frames = ([] :: nat list)\<rparr>"
  let ?r1 = "\<lparr>output_dir = ''rec'', writer = Some ?w,
      output_path = Some ''p'', is_recording_flag = True,
      frame_count = 4, start_time = Some 1, writers_created = 1, writers_released = 0\<rparr>"
  have idle: "\<not> is_recording_flag ?r0" by simp
  have ok: "is_recording_flag ?r1 \<and> writer ?r1 = Some ?w \<and> Write_ok = Write_ok" by simp
  have bad: "is_recording_flag ?r1 \<and> writer ?r1 = Some ?w
             \<and> Write_raises ''disk full'' = Write_raises ''disk full''" by simp
  note a = C8_write_frame_never_raises [where r = ?r0 and frame = 7 and outcome = Write_ok]
  note b = C8_write_frame_never_raises
    [where r = ?r1 and frame = 7 and outcome = Write_ok and w = ?w]
  note c = C8_write_frame_never_raises
    [where r = ?r1 and frame = 7 and outcome = "Write_raises ''disk full''" and w = ?w
       and msg = "''disk full''"]
  from a idle have 1: "write_frame 7 Write_ok ?r0 = (Inr False, ?r0)" by blast
  from b ok have 2: "fst (write_frame 7 Write_ok ?r1) = Inr True
      \<and> frame_count (snd (write_frame 7 Write_ok ?r1)) = frame_count ?r1 + 1" by blast
  from c bad have 3: "write_frame 7 (Write_raises ''disk full'') ?r1 = (Inr False, ?r1)" by blast
  from 1 2 3 show ?thesis by simp
qed

section \<open>Properties of the frame pipeline\<close>

text \<open>
  C9. \<^verbatim>\<open>_update_fps\<close> never raises. When the time since the previous frame is
  strictly positive the frame rate becomes its reciprocal and is emitted; when it is
  zero or negative the frame rate is left as it was, nothing is emitted, and the
  result does not depend on the division operator at all. In general the result only
  depends on what division does at strictly positive divisors, so the method never
  divides by zero or by a negative number.
\<close>

theorem C9_fps_update_guarded:
  "(\<exists>s'. update_fps t s = Inr s')
   \<and> (t - last_time s > 0 \<longrightarrow>
        update_fps t s =
          Inr (s\<lparr>frame_rate := 1 / (t - last_time s),
                 fps_update := fps_update s @ [1 / (t - last_time s)],
                 last_time := t, frame_count_vp := frame_count_vp s + 1\<rparr>))
   \<and> (t - last_time s \<le> 0 \<longrightarrow>
        update_fps t s = Inr (s\<lparr>last_time := t, frame_count_vp := frame_count_vp s + 1\<rparr>))
   \<and> (t - last_time s \<le> 0 \<longrightarrow> update_fps_with truediv t s = update_fps t s)
   \<and> ((\<forall>a b. 0 < b \<longrightarrow> truediv a b = py_truediv a b) \<longrightarrow>
        update_fps_with truediv t s = update_fps t s)"
proof -
  have pos: "t - last_time s > 0 \<Longrightarrow>
        update_fps t s =
          Inr (s\<lparr>frame_rate := 1 / (t - last_time s),
                 fps_update := fps_update s @ [1 / (t - last_time s)],
                 last_time := t, frame_count_vp := frame_count_vp s + 1\<rparr>)"
    by (simp add: update_fps_def update_fps_with_def py_truediv_def)
  have nonpos: "t - last_time s \<le> 0 \<Longrightarrow>
        update_fps_with dv t s = Inr (s\<lparr>last_time := t, frame_count_vp := frame_count_vp s + 1\<rparr>)"
    for dv
    by (simp add: update_fps_with_def)
  have ret: "\<exists>s'. update_fps t s = Inr s'"
  proof (cases "t - last_time s > 0")
    case True
    then show ?thesis using pos by blast
  next
    case False
    then have "t - last_time s \<le> 0" by simp
    then show ?thesis using nonpos [of py_truediv] by (simp add: update_fps_def)
  qed
  have indep: "update_fps_with truediv t s = update_fps t s"
    if agree: "\<forall>a b. 0 < b \<longrightarrow> truediv a b = py_truediv a b"
  proof (cases "t - last_time s > 0")
    case True
    with agree have "truediv 1 (t - last_time s) = py_truediv 1 (t - last_time s)" by blast
    then show ?thesis by (simp add: update_fps_def update_fps_with_def)
  next
    case False
    then have "t - last_time s \<le> 0" by simp
    then show ?thesis using nonpos [of py_truediv] nonpos [of truediv]
      by (simp add: update_fps_def)
  qed
  have skip: "t - last_time s \<le> 0 \<Longrightarrow> update_fps_with truediv t s = update_fps t s"
    using nonpos [of py_truediv] nonpos [of truediv] by (simp add: update_fps_def)
  have nonpos': "t - last_time s \<le> 0 \<Longrightarrow>
        update_fps t s = Inr (s\<lparr>last_time := t, frame_count_vp := frame_count_vp s + 1\<rparr>)"
    using nonpos [of py_truediv] by (simp add: update_fps_def)
  from ret pos nonpos' skip indep show ?thesis
    by (intro conjI impI) assumption+
qed

theorem C9_fps_update_guarded_witness:
  "update_fps (10 + 1 / 4)
     \<lparr>source_type = ''webcam'', running = True, paused = False, frame_rate = 0,
      last_time = 10, frame_count_vp = 0, current_frame_width = 640,
      current_frame_height = 480, zone_detector = None, frame_ready = ([] :: nat list),
      camera_error = [], fps_update = []\<rparr>
   = Inr \<lparr>source_type = ''webcam'', running = True, paused = False, frame_rate = 4,
      last_time = 10 + 1 / 4, frame_count_vp = 1, current_frame_width = 640,
      current_frame_height = 480, zone_detector = None, frame_ready = [],
      camera_error = [], fps_update = [4]\<rparr>
   \<and> update_fps_with (\<lambda>a b. if b \<le> 0 then Inl ZeroDivisionError else Inr (a / b)) 10
     \<lparr>source_type = ''webcam'', running = True, paused = False, frame_rate = 30,
      last_time = 10, frame_count_vp = 0, current_frame_width = 640,
      current_frame_height = 480, zone_detector = None, frame_ready = ([] :: nat list),
      camera_error = [], fps_update = []\<rparr>
   = Inr \<lparr>source_type = ''webcam'', running = True, paused = False, frame_rate = 30,
      last_time = 10, frame_count_vp = 1, current_frame_width = 640,
      current_frame_height = 480, zone_detector = None, frame_ready = [],
      camera_error = [], fps_update = []\<rparr>"
proof -
  let ?s = "\<lparr>source_type = ''webcam'', running = True, paused = False, frame_rate = 0,
      last_time = 10, frame_count_vp = 0, current_frame_width = 640,
      current_frame_height = 480, zone_detector = None, frame_ready = ([] :: nat list),
      camera_error = [], fps_update = []\<rparr>"
  let ?s2 = "\<lparr>source_type = ''webcam'', running = True, paused = False, frame_rate = 30,
      last_time = 10, frame_count_vp = 0, current_frame_width = 640,
      current_frame_height = 480, zone_detector = None, frame_ready = ([] :: nat list),
      camera_error = [], fps_update = []\<rparr>"
  let ?dv = "\<lambda>a b::real. if b \<le> 0 then Inl ZeroDivisionError else Inr (a / b)"
  have p: "(10 + 1 / 4 :: real) - last_time ?s > 0" by simp
  have z: "(10 :: real) - last_time ?s2 \<le> 0" by simp
  have ag: "\<forall>a b. 0 < b \<longrightarrow> ?dv a b = py_truediv a b"
    by (simp add: py_truediv_def)
  note a = C9_fps_update_guarded [where t = "10 + 1 / 4" and s = ?s and truediv = ?dv]
  note b = C9_fps_update_guarded [where t = 10 and s = ?s2 and truediv = ?dv]
  note 1 = a [THEN conjunct2, THEN conjunct1, THEN mp, OF p]
  note n = b [THEN conjunct2, THEN conjunct2, THEN conjunct1, THEN mp, OF z]
  note i = b [THEN conjunct2, THEN conjunct2, THEN conjunct2, THEN conjunct2, THEN mp, OF ag]
  from i n have 2: "update_fps_with ?dv 10 ?s2
      = Inr (?s2\<lparr>last_time := 10, frame_count_vp := frame_count_vp ?s2 + 1\<rparr>)"
    by (rule trans)
  from 1 2 show ?thesis by simp
qed

lemma apply_command_source_type [simp]: "source_type (apply_command s c) = source_type s"
  by (cases c) simp_all

lemma after_commands_source_type [simp]: "source_type (after_commands it s) = source_type s"
proof -
  have "source_type (foldl apply_command s cs) = source_type s" for cs
    by (induction cs arbitrary: s) simp_all
  then show ?thesis by (simp add: after_commands_def)
qed

lemma stopped_stays_stopped:
  "\<not> running s \<Longrightarrow> \<not> running (foldl apply_command s cs)"
proof (induction cs arbitrary: s)
  case Nil
  then show ?case by simp
next
  case (Cons c cs)
  from Cons.prems have "\<not> running (apply_command s c)" by (cases c) simp_all
  then have "\<not> running (foldl apply_command (apply_command s c) cs)" by (rule Cons.IH)
  then show ?case by simp
qed

lemma stop_clears_running:
  "Stop \<in> set cs \<Longrightarrow> \<not> running (foldl apply_command s cs)"
proof (induction cs arbitrary: s)
  case Nil
  then show ?case by simp
next
  case (Cons c cs)
  show ?case
  proof (cases "c = Stop")
    case True
    then have "\<not> running (apply_command s c)" by simp
    then have "\<not> running (foldl apply_command (apply_command s c) cs)"
      by (rule stopped_stays_stopped)
    then show ?thesis by simp
  next
    case False
    with Cons.prems have "Stop \<in> set cs" by simp
    then have "\<not> running (foldl apply_command (apply_command s c) cs)" by (rule Cons.IH)
    then show ?thesis by simp
  qed
qed

lemma run_loop_stop_returns:
  "\<exists>it \<in> set its. Stop \<in> set (it_commands it) \<Longrightarrow> run_loop its cap s \<noteq> None"
proof (induction its arbitrary: cap s)
  case Nil
  then show ?case by simp
next
  case (Cons it its)
  show ?case
  proof (cases "running (after_commands it s)")
    case False
    then show ?thesis by simp
  next
    case True
    then have here: "Stop \<notin> set (it_commands it)"
      using stop_clears_running [of "it_commands it" s] by (auto simp add: after_commands_def)
    with Cons.prems have later: "\<exists>it \<in> set its. Stop \<in> set (it_commands it)" by simp
    obtain ctl cap' s' where body: "loop_body it cap (after_commands it s) = (ctl, cap', s')"
      by (cases "loop_body it cap (after_commands it s)") auto
    show ?thesis
    proof (cases ctl)
      case Continue
      have "run_loop its cap' s' \<noteq> None" using later by (rule Cons.IH)
      then show ?thesis using True body Continue by simp
    next
      case Break
      then show ?thesis using True body by simp
    next
      case (Raised e)
      then show ?thesis using True body by simp
    qed
  qed
qed

lemma run_releases:
  assumes "run (Opened w h) its s = Some (c, s')"
  shows "(\<exists>cap'. c = Some cap' \<and> cap_released cap') \<and> \<not> running s'"
  using assms
  by (auto simp add: run_def open_video_source_def finally_block_def
      split: option.splits prod.splits loop_exit.splits)

lemma run_stop_returns:
  assumes "\<exists>it \<in> set its. Stop \<in> set (it_commands it)"
  shows "run oc its s \<noteq> None"
proof (cases "open_video_source oc s")
  case (Pair c s1)
  show ?thesis
  proof (cases c)
    case None
    then show ?thesis using Pair by (simp add: run_def)
  next
    case (Some cap)
    let ?s2 = "s1\<lparr>current_frame_width := cap_width cap,
                      current_frame_height := cap_height cap,
                      zone_detector := Some (ZoneDetector (cap_width cap) 3),
                      running := True\<rparr>"
    have "run_loop its cap ?s2 \<noteq> None" using assms by (rule run_loop_stop_returns)
    then show ?thesis using Pair Some
      by (auto simp add: run_def split: option.splits prod.splits loop_exit.splits)
  qed
qed

text \<open>
  C6. In a pass of the running loop that is not paused and whose read fails: with
  source type \<^verbatim>\<open>"file"\<close> the capture position is set to frame 0 and the loop goes on
  with the thread's attributes unchanged (still running); with a live source
  (\<^verbatim>\<open>"webcam"\<close> or \<^verbatim>\<open>"external_camera"\<close>) the loop is left. Whenever \<^verbatim>\<open>run\<close> returns
  after the source was opened, by the end of the loop, a break or an exception, the
  capture handle has been released and \<^verbatim>\<open>running\<close> is false. And \<^verbatim>\<open>run\<close> does return
  once the controller has called \<^verbatim>\<open>stop\<close>.
\<close>

theorem C6_end_of_stream_and_release:
  "(running (after_commands it s) \<and> \<not> paused (after_commands it s)
      \<and> it_outcome it = Read_failed \<and> source_type s = ''file'' \<longrightarrow>
        loop_body it cap (after_commands it s)
          = (Continue, cap\<lparr>cap_pos_frames := 0\<rparr>, after_commands it s)
        \<and> run_loop (it # its) cap s
          = run_loop its (cap\<lparr>cap_pos_frames := 0\<rparr>) (after_commands it s))
   \<and> (running (after_commands it s) \<and> \<not> paused (after_commands it s)
      \<and> it_outcome it = Read_failed \<and> source_type s \<in> {''webcam'', ''external_camera''} \<longrightarrow>
        run_loop (it # its) cap s = Some (Loop_end, cap, after_commands it s))
   \<and> (run (Opened w h) its0 s0 = Some (c, s') \<longrightarrow>
        (\<exists>cap'. c = Some cap' \<and> cap_released cap') \<and> \<not> running s')
   \<and> ((\<exists>i \<in> set its0. Stop \<in> set (it_commands i)) \<longrightarrow> run oc its0 s0 \<noteq> None)"
proof -
  have looping: "loop_body it cap (after_commands it s)
          = (Continue, cap\<lparr>cap_pos_frames := 0\<rparr>, after_commands it s)
        \<and> run_loop (it # its) cap s
          = run_loop its (cap\<lparr>cap_pos_frames := 0\<rparr>) (after_commands it s)"
    if "running (after_commands it s) \<and> \<not> paused (after_commands it s)
      \<and> it_outcome it = Read_failed \<and> source_type s = ''file''"
    using that by (simp add: loop_body_def)
  have live: "run_loop (it # its) cap s = Some (Loop_end, cap, after_commands it s)"
    if "running (after_commands it s) \<and> \<not> paused (after_commands it s)
      \<and> it_outcome it = Read_failed \<and> source_type s \<in> {''webcam'', ''external_camera''}"
    using that by (auto simp add: loop_body_def)
  have rel: "(\<exists>cap'. c = Some cap' \<and> cap_released cap') \<and> \<not> running s'"
    if "run (Opened w h) its0 s0 = Some (c, s')"
    using that by (rule run_releases)
  have stop: "run oc its0 s0 \<noteq> None"
    if "\<exists>i \<in> set its0. Stop \<in> set (it_commands i)"
    using that by (rule run_stop_returns)
  have p1: "running (after_commands it s) \<and> \<not> paused (after_commands it s)
      \<and> it_outcome it = Read_failed \<and> source_type s = ''file'' \<longrightarrow>
        loop_body it cap (after_commands it s)
          = (Continue, cap\<lparr>cap_pos_frames := 0\<rparr>, after_commands it s)
        \<and> run_loop (it # its) cap s
          = run_loop its (cap\<lparr>cap_pos_frames := 0\<rparr>) (after_commands it s)"
    by (rule impI) (rule looping)
  have p2: "running (after_commands it s) \<and> \<not> paused (after_commands it s)
      \<and> it_outcome it = Read_failed \<and> source_type s \<in> {''webcam'', ''external_camera''} \<longrightarrow>
        run_loop (it # its) cap s = Some (Loop_end, cap, after_commands it s)"
    by (rule impI) (rule live)
  have p3: "run (Opened w h) its0 s0 = Some (c, s') \<longrightarrow>
        (\<exists>cap'. c = Some cap' \<and> cap_released cap') \<and> \<not> running s'"
    by (rule impI) (rule rel)
  have p4: "(\<exists>i \<in> set its0. Stop \<in> set (it_commands i)) \<longrightarrow> run oc its0 s0 \<noteq> None"
    by (rule impI) (rule stop)
  show ?thesis
    by (rule conjI [OF p1 conjI [OF p2 conjI [OF p3 p4]]])
qed

lemmas run_eval =
  run_def open_video_source_def finally_block_def loop_body_def after_commands_def
  update_fps_def update_fps_with_def py_truediv_def ZoneDetector_def update_boundaries_def

theorem C6_end_of_stream_and_release_witness:
  "loop_body \<lparr>it_commands = [], it_outcome = Read_failed, it_time = 1\<rparr>
     \<lparr>cap_width = 900, cap_height = 600, cap_pos_frames = 5, cap_released = False\<rparr>
     \<lparr>source_type = ''file'', running = True, paused = False, frame_rate = 0,
      last_time = 0, frame_count_vp = 0, current_frame_width = 900,
      current_frame_height = 600, zone_detector = None, frame_ready = ([] :: nat list),
      camera_error = [], fps_update = []\<rparr>
   = (Continue,
      \<lparr>cap_width = 900, cap_height = 600, cap_pos_frames = 0, cap_released = False\<rparr>,
      \<lparr>source_type = ''file'', running = True, paused = False, frame_rate = 0,
       last_time = 0, frame_count_vp = 0, current_frame_width = 900,
       current_frame_height = 600, zone_detector = None, frame_ready = [],
       camera_error = [], fps_update = []\<rparr>)
   \<and> run_loop [\<lparr>it_commands = [], it_outcome = Read_failed, it_time = 1\<rparr>]
     \<lparr>cap_width = 900, cap_height = 600, cap_pos_frames = 5, cap_released = False\<rparr>
     \<lparr>source_type = ''webcam'', running = True, paused = False, frame_rate = 0,
      last_time = 0, frame_count_vp = 0, current_frame_width = 900,
      current_frame_height = 600, zone_detector = None, frame_ready = ([] :: nat list),
      camera_error = [], fps_update = []\<rparr>
   = Some (Loop_end,
      \<lparr>cap_width = 900, cap_height = 600, cap_pos_frames = 5, cap_released = False\<rparr>,
      \<lparr>source_type = ''webcam'', running = True, paused = False, frame_rate = 0,
       last_time = 0, frame_count_vp = 0, current_frame_width = 900,
       current_frame_height = 600, zone_detector = None, frame_ready = [],
       camera_error = [], fps_update = []\<rparr>)
   \<and> (\<exists>cap' s'.
        run (Opened 900 600)
          [\<lparr>it_commands = [], it_outcome = Process_raised (Exception ''boom''), it_time = 1\<rparr>]
          \<lparr>source_type = ''webcam'', running = False, paused = False, frame_rate = 0,
           last_time = 0, frame_count_vp = 0, current_frame_width = 640,
           current_frame_height = 480, zone_detector = None, frame_ready = ([] :: nat list),
           camera_error = [], fps_update = []\<rparr>
        = Some (Some cap', s')
        \<and> cap_released cap' \<and> \<not> running s'
        \<and> camera_error s' = [''Error in video processing: boom''])
   \<and> run (Opened 900 600)
        [\<lparr>it_commands = [], it_outcome = Read_failed, it_time = 1\<rparr>,
         \<lparr>it_commands = [Pause, Stop], it_outcome = Processed 7, it_time = 2\<rparr>]
        \<lparr>source_type = ''file'', running = False, paused = False, frame_rate = 0,
         last_time = 0, frame_count_vp = 0, current_frame_width = 640,
         current_frame_height = 480, zone_detector = None, frame_ready = ([] :: nat list),
         camera_error = [], fps_update = []\<rparr>
      \<noteq> None"
proof -
  let ?it = "\<lparr>it_commands = [], it_outcome = (Read_failed :: nat frame_outcome), it_time = 1\<rparr>"
  let ?cap = "\<lparr>cap_width = 900, cap_height = 600, cap_pos_frames = 5, cap_released = False\<rparr>"
  let ?sf = "\<lparr>source_type = ''file'', running = True, paused = False, frame_rate = 0,
      last_time = 0, frame_count_vp = 0, current_frame_width = 900,
      current_frame_height = 600, zone_detector = None, frame_ready = ([] :: nat list),
      camera_error = [], fps_update = []\<rparr>"
  let ?sl = "\<lparr>source_type = ''webcam'', running = True, paused = False, frame_rate = 0,
      last_time = 0, frame_count_vp = 0, current_frame_width = 900,
      current_frame_height = 600, zone_detector = None, frame_ready = ([] :: nat list),
      camera_error = [], fps_update = []\<rparr>"
  let ?s0 = "\<lparr>source_type = ''webcam'', running = False, paused = False, frame_rate = 0,
           last_time = 0, frame_count_vp = 0, current_frame_width = 640,
           current_frame_height = 480, zone_detector = None, frame_ready = ([] :: nat list),
           camera_error = [], fps_update = []\<rparr>"
  let ?f0 = "\<lparr>source_type = ''file'', running = False, paused = False, frame_rate = 0,
         last_time = 0, frame_count_vp = 0, current_frame_width = 640,
         current_frame_height = 480, zone_detector = None, frame_ready = ([] :: nat list),
         camera_error = [], fps_update = []\<rparr>"
  let ?boom = "[\<lparr>it_commands = [],
                 it_outcome = (Process_raised (Exception ''boom'') :: nat frame_outcome),
                 it_time = 1\<rparr>]"
  let ?its = "[?it, \<lparr>it_commands = [Pause, Stop], it_outcome = Processed 7, it_time = 2\<rparr>]"
  let ?capR = "\<lparr>cap_width = 900, cap_height = 600, cap_pos_frames = 1, cap_released = True\<rparr>"
  let ?sR = "\<lparr>source_type = ''webcam'', running = False, paused = False, frame_rate = 0,
           last_time = 0, frame_count_vp = 0, current_frame_width = 900,
           current_frame_height = 600, zone_detector = Some (ZoneDetector 900 3),
           frame_ready = ([] :: nat list),
           camera_error = [''Error in video processing: boom''], fps_update = []\<rparr>"
  have af: "after_commands ?it ?sf = ?sf" and al: "after_commands ?it ?sl = ?sl"
    by (simp_all add: after_commands_def)
  have hf: "running (after_commands ?it ?sf) \<and> \<not> paused (after_commands ?it ?sf)
      \<and> it_outcome ?it = Read_failed \<and> source_type ?sf = ''file''"
    by (simp add: af)
  have hl: "running (after_commands ?it ?sl) \<and> \<not> paused (after_commands ?it ?sl)
      \<and> it_outcome ?it = Read_failed \<and> source_type ?sl \<in> {''webcam'', ''external_camera''}"
    by (simp add: al)
  have hr: "run (Opened 900 600) ?boom ?s0 = Some (Some ?capR, ?sR)"
    by (simp add: run_eval)
  have hs: "\<exists>i \<in> set ?its. Stop \<in> set (it_commands i)"
    by simp
  note a = C6_end_of_stream_and_release
    [where it = ?it and s = ?sf and cap = ?cap and its = "[]", THEN conjunct1, THEN mp, OF hf,
     THEN conjunct1]
  note b = C6_end_of_stream_and_release
    [where it = ?it and s = ?sl and cap = ?cap and its = "[]",
     THEN conjunct2, THEN conjunct1, THEN mp, OF hl]
  note c = C6_end_of_stream_and_release
    [where w = 900 and h = 600 and ?its0.0 = ?boom and ?s0.0 = ?s0 and c = "Some ?capR"
       and s' = ?sR,
     THEN conjunct2, THEN conjunct2, THEN conjunct1, THEN mp, OF hr]
  note d = C6_end_of_stream_and_release
    [where oc = "Opened 900 600" and ?its0.0 = ?its and ?s0.0 = ?f0,
     THEN conjunct2, THEN conjunct2, THEN conjunct2, THEN mp, OF hs]
  have f1: "loop_body ?it ?cap ?sf = (Continue, ?cap\<lparr>cap_pos_frames := 0\<rparr>, ?sf)"
    using a by (simp only: af)
  have f2: "run_loop [?it] ?cap ?sl = Some (Loop_end, ?cap, ?sl)"
    using b by (simp only: al)
  have f3: "\<exists>cap' s'. run (Opened 900 600) ?boom ?s0 = Some (Some cap', s')
        \<and> cap_released cap' \<and> \<not> running s'
        \<and> camera_error s' = [''Error in video processing: boom'']"
    using c hr by simp
  from f1 have g1: "loop_body ?it ?cap ?sf
     = (Continue, \<lparr>cap_width = 900, cap_height = 600, cap_pos_frames = 0, cap_released = False\<rparr>, ?sf)"
    by simp
  show ?thesis
    by (rule conjI [OF g1 conjI [OF f2 conjI [OF f3 d]]])
qed

end
